theory Spec2Isabelle
  imports Main "HOL-Library.Sublist"
begin

section \<open>The native database layer\<close>

text \<open>
  \<^verbatim>\<open>sql_connection.go\<close> drives Go's \<^verbatim>\<open>database/sql\<close> package. A pointer to a
  \<^verbatim>\<open>sql.DB\<close> or a \<^verbatim>\<open>sql.Tx\<close> is an address; a Go \<^verbatim>\<open>error\<close> is the text of its
  \<^verbatim>\<open>Error()\<close>, which is what \<^verbatim>\<open>%v\<close> prints; \<^verbatim>\<open>nil\<close> is \<open>None\<close>.
\<close>

type_synonym handle = nat
type_synonym error = string

text \<open>Every call the file makes on the native layer, with its receiver and arguments.\<close>

datatype call =
    SqlOpen string string
  | DbExec handle string
  | DbPing handle
  | DbBegin handle
  | DbClose handle
  | DbSetConnMaxLifetime handle int
  | DbSetMaxIdleConns handle int
  | TxCommit handle
  | TxRollback handle

text \<open>
  The state of the native layer: the calls made so far, oldest first, and the next
  address the allocator hands out (\<^verbatim>\<open>sql.Open\<close> and \<^verbatim>\<open>db.Begin\<close> return newly
  allocated objects).
\<close>

record native =
  calls :: "call list"
  next_handle :: handle

text \<open>What \<^verbatim>\<open>Unwrap\<close> returns as \<^verbatim>\<open>interface{}\<close>: the \<^verbatim>\<open>*sql.DB\<close> or the \<^verbatim>\<open>*sql.Tx\<close>.\<close>

datatype native_ref = SqlDB handle | SqlTx "handle option"

text \<open>A function that does not return normally returns an error value or panics.\<close>

datatype failure = Error error | Panic string

section \<open>Declarations of the package that live outside the file\<close>

text \<open>
  Modelled from the spec: \<^verbatim>\<open>Config\<close> is declared elsewhere in the package, and the spec
  describes it as a read-only structure exposing the driver name, the descriptor, the
  initialization statements, the pool size and the optional tuning keys. The fields the
  file reads are fields here; each method the file calls (\<^verbatim>\<open>DsnDescriptor\<close>, \<^verbatim>\<open>Has\<close>,
  \<^verbatim>\<open>GetDuration\<close>, \<^verbatim>\<open>GetInt\<close>) is a field holding what the method returns: a method
  reads the configuration and writes nothing.
\<close>

record Config =
  DriverName :: string
  Descriptor :: string
  InitSQL :: "string list"
  MaxPoolSize :: int
  DsnDescriptor :: "error + string"
  Has :: "string \<Rightarrow> bool"
  GetDuration :: "string \<Rightarrow> int \<Rightarrow> int \<Rightarrow> int"
  GetInt :: "string \<Rightarrow> int \<Rightarrow> int"

text \<open>
  \<^verbatim>\<open>AbstractConnection\<close> is embedded in \<^verbatim>\<open>sqlConnection\<close>; the file reads only its
  \<^verbatim>\<open>LastUsed()\<close>, a \<^verbatim>\<open>*time.Time\<close>, here an instant in nanoseconds.
\<close>

record AbstractConnection =
  lastUsed :: "int option"

text \<open>
  The environment of the file: the answers of the native layer and the package-level
  functions and variables the file uses without declaring them.
  \<^item> \<open>respond\<close>: the error (or \<^verbatim>\<open>nil\<close>) the native layer answers a call with, given
    the calls made before it;
  \<^item> \<open>asSQLDb\<close>: the package's cast of an \<^verbatim>\<open>interface{}\<close> to \<^verbatim>\<open>*sql.DB\<close>;
  \<^item> \<open>sqlDbPointer\<close>, \<open>sqlTxtPointer\<close>: the two sentinels \<^verbatim>\<open>Unwrap\<close> compares
    its argument with, and \<open>fmt_v\<close>, what \<^verbatim>\<open>%v\<close> prints for a target;
  \<^item> \<open>CanHandleTransaction\<close>: \<^verbatim>\<open>GetDatastoreDialect(driver).CanHandleTransaction()\<close>;
  \<^item> \<open>NewAbstractConnection\<close>: the constructor of the embedded part;
  \<^item> \<open>now\<close>: \<^verbatim>\<open>time.Now()\<close>, in nanoseconds.
\<close>

record 'tag env =
  respond :: "call list \<Rightarrow> call \<Rightarrow> error option"
  asSQLDb :: "native_ref \<Rightarrow> error + handle"
  sqlDbPointer :: 'tag
  sqlTxtPointer :: 'tag
  fmt_v :: "'tag \<Rightarrow> string"
  CanHandleTransaction :: "string \<Rightarrow> bool"
  NewAbstractConnection :: "Config \<Rightarrow> AbstractConnection"
  now :: int

section \<open>Calls on the native layer\<close>

text \<open>A call that returns only an error: it is logged and answered.\<close>

definition native_call :: "'tag env \<Rightarrow> call \<Rightarrow> native \<Rightarrow> error option \<times> native" where
  "native_call env c w = (respond env (calls w) c, w\<lparr>calls := calls w @ [c]\<rparr>)"

text \<open>A call that returns a new object and an error: a fresh address on success.\<close>

definition native_alloc :: "'tag env \<Rightarrow> call \<Rightarrow> native \<Rightarrow> (error + handle) \<times> native" where
  "native_alloc env c w =
     (case respond env (calls w) c of
        Some err \<Rightarrow> (Inl err, w\<lparr>calls := calls w @ [c]\<rparr>)
      | None \<Rightarrow> (Inr (next_handle w),
                 w\<lparr>calls := calls w @ [c], next_handle := Suc (next_handle w)\<rparr>))"

text \<open>A setter: it returns nothing, the call is only logged.\<close>

definition native_set :: "call \<Rightarrow> native \<Rightarrow> native" where
  "native_set c w = w\<lparr>calls := calls w @ [c]\<rparr>"

section \<open>Constants\<close>

definition connMaxLifetimeMsKey :: string where
  "connMaxLifetimeMsKey = ''connMaxLifetimeMs''"

definition defaultConnMaxLifetimeMs :: int where
  "defaultConnMaxLifetimeMs = 1000"

definition maxIdleConnsKey :: string where
  "maxIdleConnsKey = ''maxIdleConns''"

text \<open>\<^verbatim>\<open>time.Duration\<close> is a signed 64-bit count of nanoseconds.\<close>

definition time_Millisecond :: int where
  "time_Millisecond = 1000000"

definition time_Second :: int where
  "time_Second = 1000 * time_Millisecond"

definition maxDuration :: int where
  "maxDuration = 2 ^ 63 - 1"

definition minDuration :: int where
  "minDuration = - (2 ^ 63)"

text \<open>\<^verbatim>\<open>t.Sub(u)\<close>: the duration \<open>t - u\<close>, saturated to the range of a duration.\<close>

definition time_Sub :: "int \<Rightarrow> int \<Rightarrow> int" where
  "time_Sub t u =
     (let d = t - u
      in if d > maxDuration then maxDuration
         else if d < minDuration then minDuration
         else d)"

section \<open>sqlConnection\<close>

text \<open>
  The field \<open>db\<close> is never \<^verbatim>\<open>nil\<close>: the only place a \<^verbatim>\<open>sqlConnection\<close> is built,
  \<^verbatim>\<open>NewConnection\<close>, stores the result of a successful \<^verbatim>\<open>sql.Open\<close>. The field \<open>tx\<close>
  is compared with \<^verbatim>\<open>nil\<close>, so it is an option. The methods have pointer receivers:
  \<open>CloseNow\<close>, \<open>Begin\<close>, \<open>Commit\<close> and \<open>Rollback\<close> return the connection as they
  leave it; \<open>Unwrap\<close> assigns to nothing and returns only its value.
\<close>

record sqlConnection =
  canHandleTransaction :: bool
  super :: AbstractConnection
  db :: handle
  tx :: "handle option"
  init :: bool

definition CloseNow ::
  "'tag env \<Rightarrow> sqlConnection \<Rightarrow> native \<Rightarrow> error option \<times> sqlConnection \<times> native" where
  "CloseNow env c w =
     (case asSQLDb env (SqlDB (db c)) of
        Inl err \<Rightarrow> (Some err, c, w)
      | Inr d \<Rightarrow>
          (let w1 = native_set (DbSetConnMaxLifetime d (1000 * time_Millisecond)) w;
               (err, w2) = native_call env (DbClose d) w1
           in (err, c, w2)))"

definition Begin ::
  "'tag env \<Rightarrow> sqlConnection \<Rightarrow> native \<Rightarrow> error option \<times> sqlConnection \<times> native" where
  "Begin env c w =
     (if \<not> canHandleTransaction c then (None, c, w)
      else case asSQLDb env (SqlDB (db c)) of
        Inl err \<Rightarrow> (Some err, c, w)
      | Inr d \<Rightarrow>
          (case native_alloc env (DbBegin d) w of
             (Inl err, w1) \<Rightarrow> (Some err, c, w1)
           | (Inr t, w1) \<Rightarrow> (None, c\<lparr>tx := Some t\<rparr>, w1)))"

definition Unwrap :: "'tag env \<Rightarrow> sqlConnection \<Rightarrow> 'tag \<Rightarrow> failure + native_ref" where
  "Unwrap env c target =
     (if target = sqlDbPointer env then Inr (SqlDB (db c))
      else if target = sqlTxtPointer env then Inr (SqlTx (tx c))
      else Inl (Panic (''unsupported target type '' @ fmt_v env target)))"

definition Commit ::
  "'tag env \<Rightarrow> sqlConnection \<Rightarrow> native \<Rightarrow> error option \<times> sqlConnection \<times> native" where
  "Commit env c w =
     (if \<not> canHandleTransaction c then (None, c, w)
      else case tx c of
        None \<Rightarrow> (Some ''no active transaction'', c, w)
      | Some t \<Rightarrow>
          (let (err, w1) = native_call env (TxCommit t) w
           in (err, c\<lparr>tx := None\<rparr>, w1)))"

definition Rollback ::
  "'tag env \<Rightarrow> sqlConnection \<Rightarrow> native \<Rightarrow> error option \<times> sqlConnection \<times> native" where
  "Rollback env c w =
     (if \<not> canHandleTransaction c then (None, c, w)
      else case tx c of
        None \<Rightarrow> (Some ''no active transaction'', c, w)
      | Some t \<Rightarrow>
          (let (err, w1) = native_call env (TxRollback t) w
           in (err, c\<lparr>tx := None\<rparr>, w1)))"

section \<open>sqlConnectionProvider\<close>

text \<open>
  The loop of \<^verbatim>\<open>NewConnection\<close> over \<^verbatim>\<open>config.InitSQL\<close>: the first statement that
  fails ends it with the formatted error.
\<close>

fun exec_InitSQL ::
  "'tag env \<Rightarrow> Config \<Rightarrow> handle \<Rightarrow> string list \<Rightarrow> native \<Rightarrow> error option \<times> native" where
  "exec_InitSQL env config d [] w = (None, w)"
| "exec_InitSQL env config d (SQL # rest) w =
     (case native_call env (DbExec d SQL) w of
        (Some err, w1) \<Rightarrow>
          (Some (''failed to execute init SQL '' @ SQL @ '' on '' @ Descriptor config
                 @ '' due to '' @ err), w1)
      | (None, w1) \<Rightarrow> exec_InitSQL env config d rest w1)"

text \<open>
  \<^verbatim>\<open>NewConnection\<close> and \<^verbatim>\<open>Get\<close> hold a pointer to the provider's configuration: each
  returns, after its result, the configuration as it leaves it and then the native layer.
\<close>

definition NewConnection ::
  "'tag env \<Rightarrow> Config \<Rightarrow> native \<Rightarrow> (failure + sqlConnection) \<times> Config \<times> native" where
  "NewConnection env config w =
     (case DsnDescriptor config of
        Inl err \<Rightarrow> (Inl (Error err), config, w)
      | Inr dsn \<Rightarrow>
          (case native_alloc env (SqlOpen (DriverName config) dsn) w of
             (Inl err, w1) \<Rightarrow>
               (Inl (Error (''failed to open connection to '' @ DriverName config @ '' on ''
                            @ Descriptor config @ '' due to '' @ err)), config, w1)
           | (Inr d, w1) \<Rightarrow>
               (case exec_InitSQL env config d (InitSQL config) w1 of
                  (Some err, w2) \<Rightarrow> (Inl (Error err), config, w2)
                | (None, w2) \<Rightarrow>
                    (Inr \<lparr>canHandleTransaction = CanHandleTransaction env (DriverName config),
                          super = NewAbstractConnection env config,
                          db = d, tx = None, init = False\<rparr>, config, w2))))"

text \<open>
  The condition of \<^verbatim>\<open>Get\<close> for probing the connection it took from the pool:
  \<^verbatim>\<open>result.LastUsed() != nil && (time.Now().Sub(*result.LastUsed()) > 60*time.Second)\<close>.
\<close>

definition probe_needed :: "'tag env \<Rightarrow> sqlConnection \<Rightarrow> bool" where
  "probe_needed env result =
     (case lastUsed (super result) of
        None \<Rightarrow> False
      | Some t \<Rightarrow> time_Sub (now env) t > 60 * time_Second)"

text \<open>
  The two \<^verbatim>\<open>if c.config.Has(...)\<close> blocks of \<^verbatim>\<open>Get\<close>, which set the pool tuning of
  the handle \<open>d\<close>.
\<close>

definition apply_tuning :: "Config \<Rightarrow> handle \<Rightarrow> native \<Rightarrow> native" where
  "apply_tuning config d w =
     (let w1 =
            (if Has config connMaxLifetimeMsKey
             then (let connMaxLifetime =
                         GetDuration config connMaxLifetimeMsKey
                           time_Millisecond defaultConnMaxLifetimeMs
                   in if connMaxLifetime \<noteq> 0
                      then native_set (DbSetConnMaxLifetime d connMaxLifetime) w
                      else w)
             else w)
      in if Has config maxIdleConnsKey
         then native_set (DbSetMaxIdleConns d (GetInt config maxIdleConnsKey 1)) w1
         else w1)"

text \<open>
  \<^verbatim>\<open>Get\<close>. The embedded provider's \<^verbatim>\<open>Get\<close> is outside the file: \<open>super_Get\<close> is what
  it returned and \<open>w\<close> the native layer after it.
\<close>

definition Get ::
  "'tag env \<Rightarrow> Config \<Rightarrow> error + sqlConnection \<Rightarrow> native
     \<Rightarrow> (failure + sqlConnection) \<times> Config \<times> native" where
  "Get env config super_Get w =
     (case super_Get of
        Inl err \<Rightarrow> (Inl (Error err), config, w)
      | Inr result \<Rightarrow>
          (case Unwrap env result (sqlDbPointer env) of
             Inl p \<Rightarrow> (Inl p, config, w)
           | Inr r \<Rightarrow>
               (case asSQLDb env r of
                  Inl err \<Rightarrow> (Inl (Error err), config, w)
                | Inr d \<Rightarrow>
                    (let (err, w1) =
                           (if probe_needed env result
                            then native_call env (DbPing d) w
                            else (None, w))
                     in if err = None then (Inr result, config, w1)
                        else NewConnection env config (apply_tuning config d w1)))))"

text \<open>
  \<^verbatim>\<open>make(chan Connection, n)\<close> panics when \<open>n\<close> is negative or above the capacity the
  platform can allocate (\<open>limit\<close>); otherwise the channel is empty with capacity \<open>n\<close>.
\<close>

record chan =
  cap :: int
  queue :: "sqlConnection list"

definition make_chan :: "int \<Rightarrow> int \<Rightarrow> failure + chan" where
  "make_chan limit n =
     (if n < 0 \<or> limit < n then Inl (Panic ''makechan: size out of range'')
      else Inr \<lparr>cap = n, queue = []\<rparr>)"

text \<open>
  Modelled from the spec: \<^verbatim>\<open>NewAbstractConnectionProvider\<close> is outside the file; the
  provider it builds holds the config it was given and the pool it was given.
\<close>

record sqlConnectionProvider =
  provider_config :: Config
  connectionPool :: chan

text \<open>
  \<^verbatim>\<open>newSQLConnectionProvider\<close> takes a pointer to the config and writes through it: the
  config as the function leaves it is returned with the provider.
\<close>

definition newSQLConnectionProvider ::
  "int \<Rightarrow> Config \<Rightarrow> Config \<times> (failure + sqlConnectionProvider)" where
  "newSQLConnectionProvider limit config =
     (let config1 = (if MaxPoolSize config = 0 then config\<lparr>MaxPoolSize := 1\<rparr> else config)
      in (config1,
          case make_chan limit (MaxPoolSize config1) of
            Inl p \<Rightarrow> Inl p
          | Inr pool \<Rightarrow> Inr \<lparr>provider_config = config1, connectionPool = pool\<rparr>))"

section \<open>Sequences of operations on one connection\<close>

text \<open>
  The five methods of a connection, as a caller may invoke them in any order. A call of
  \<open>Unwrap\<close> leaves the connection and the native layer as they are, also when it panics.
\<close>

datatype 'tag operation = OpBegin | OpCommit | OpRollback | OpCloseNow | OpUnwrap 'tag

fun apply_operation ::
  "'tag env \<Rightarrow> 'tag operation \<Rightarrow> sqlConnection \<times> native \<Rightarrow> sqlConnection \<times> native" where
  "apply_operation env OpBegin (c, w) = snd (Begin env c w)"
| "apply_operation env OpCommit (c, w) = snd (Commit env c w)"
| "apply_operation env OpRollback (c, w) = snd (Rollback env c w)"
| "apply_operation env OpCloseNow (c, w) = snd (CloseNow env c w)"
| "apply_operation env (OpUnwrap target) (c, w) = (c, w)"

fun run_operations ::
  "'tag env \<Rightarrow> 'tag operation list \<Rightarrow> sqlConnection \<times> native \<Rightarrow> sqlConnection \<times> native" where
  "run_operations env [] s = s"
| "run_operations env (x # xs) s = run_operations env xs (apply_operation env x s)"

text \<open>
  What a caller does with a constructed provider: it asks for a connection with
  \<^verbatim>\<open>NewConnection\<close> or \<^verbatim>\<open>Get\<close> (for \<^verbatim>\<open>Get\<close>, with what the embedded provider took from
  the pool) and from then on holds the connection returned, if one is; or it calls a
  method of the connection it holds. The state is the provider's configuration, the
  connection held and the native layer. The methods of a connection are given neither
  the configuration nor a way to it: in the file they use the fields \<open>db\<close>, \<open>tx\<close> and
  \<open>canHandleTransaction\<close> only.
\<close>

datatype 'tag file_operation =
    CallNewConnection
  | CallGet "error + sqlConnection"
  | CallOnConnection "'tag operation"

fun apply_file_operation ::
  "'tag env \<Rightarrow> 'tag file_operation \<Rightarrow> Config \<times> sqlConnection \<times> native
     \<Rightarrow> Config \<times> sqlConnection \<times> native" where
  "apply_file_operation env CallNewConnection (config, c, w) =
     (case NewConnection env config w of
        (Inr c', config', w') \<Rightarrow> (config', c', w')
      | (Inl f, config', w') \<Rightarrow> (config', c, w'))"
| "apply_file_operation env (CallGet super_Get) (config, c, w) =
     (case Get env config super_Get w of
        (Inr c', config', w') \<Rightarrow> (config', c', w')
      | (Inl f, config', w') \<Rightarrow> (config', c, w'))"
| "apply_file_operation env (CallOnConnection x) (config, c, w) =
     (config, apply_operation env x (c, w))"

fun run_file_operations ::
  "'tag env \<Rightarrow> 'tag file_operation list \<Rightarrow> Config \<times> sqlConnection \<times> native
     \<Rightarrow> Config \<times> sqlConnection \<times> native" where
  "run_file_operations env [] s = s"
| "run_file_operations env (x # xs) s = run_file_operations env xs (apply_file_operation env x s)"

text \<open>The invariant of the data model: a stored transaction needs a transactional dialect.\<close>

definition tx_invariant :: "sqlConnection \<Rightarrow> bool" where
  "tx_invariant c = (tx c \<noteq> None \<longrightarrow> canHandleTransaction c)"

section \<open>Concrete inputs\<close>

definition conn_csv :: sqlConnection where
  "conn_csv = \<lparr>canHandleTransaction = False, super = \<lparr>lastUsed = None\<rparr>,
               db = 0, tx = None, init = False\<rparr>"

definition conn_pg :: sqlConnection where
  "conn_pg = \<lparr>canHandleTransaction = True, super = \<lparr>lastUsed = None\<rparr>,
              db = 0, tx = None, init = False\<rparr>"

definition conn_pg_active :: sqlConnection where
  "conn_pg_active = conn_pg\<lparr>tx := Some 1\<rparr>"

text \<open>A native layer in which every call succeeds, and one in which every call fails.\<close>

definition env_ok :: "string env" where
  "env_ok = \<lparr>respond = (\<lambda>h c. None),
             asSQLDb = (\<lambda>r. case r of SqlDB d \<Rightarrow> Inr d | SqlTx t \<Rightarrow> Inl ''failed cast as sql.DB''),
             sqlDbPointer = ''*sql.DB'', sqlTxtPointer = ''*sql.Tx'', fmt_v = (\<lambda>s. s),
             CanHandleTransaction = (\<lambda>driver. driver = ''pg''),
             NewAbstractConnection = (\<lambda>config. \<lparr>lastUsed = None\<rparr>),
             now = 100 * time_Second\<rparr>"

definition env_down :: "string env" where
  "env_down = env_ok\<lparr>respond := (\<lambda>h c. Some ''connection refused'')\<rparr>"

definition native0 :: native where
  "native0 = \<lparr>calls = [SqlOpen ''pg'' ''dsn'', DbBegin 0], next_handle = 2\<rparr>"

text \<open>A driver that rejects the second initialization statement on the handle 2.\<close>

definition env_init_fail :: "string env" where
  "env_init_fail =
     env_ok\<lparr>respond := (\<lambda>h c. if c = DbExec 2 ''SET b'' then Some ''syntax error'' else None)\<rparr>"

text \<open>A driver whose liveness probe fails while everything else succeeds.\<close>

definition env_stale :: "string env" where
  "env_stale =
     env_ok\<lparr>respond := (\<lambda>h c. if c = DbPing 0 then Some ''bad connection'' else None)\<rparr>"

text \<open>A configuration with both tuning keys set and the pool size left unset.\<close>

definition cfg_pg :: Config where
  "cfg_pg = \<lparr>DriverName = ''pg'', Descriptor = ''db1'',
             InitSQL = [''SET a'', ''SET b'', ''SET c''], MaxPoolSize = 0,
             DsnDescriptor = Inr ''dsn'',
             Has = (\<lambda>key. True),
             GetDuration = (\<lambda>key unit dflt. 5000 * unit),
             GetInt = (\<lambda>key dflt. 2)\<rparr>"

definition cfg_pool5 :: Config where
  "cfg_pool5 = cfg_pg\<lparr>MaxPoolSize := 5\<rparr>"

text \<open>A pooled connection last used at instant 0; \<open>env_ok\<close> has the clock at 100 s.\<close>

definition conn_idle :: sqlConnection where
  "conn_idle = conn_pg\<lparr>super := \<lparr>lastUsed = Some 0\<rparr>\<rparr>"

section \<open>Transaction control\<close>

text \<open>
  C1. On a connection whose dialect does not support transactions, \<open>Begin\<close>, \<open>Commit\<close> and
  \<open>Rollback\<close> each return \<^verbatim>\<open>nil\<close>, make no call on the native layer (the log and the
  allocator are as before) and leave the connection as it was: the stored transaction
  handle is not written, so none is created. Hence any sequence of the three, in any
  order, leaves the connection and the native layer as they were.
\<close>

theorem C1_no_transactions_noop:
  assumes "\<not> canHandleTransaction c"
  shows "Begin env c w = (None, c, w)
       \<and> Commit env c w = (None, c, w)
       \<and> Rollback env c w = (None, c, w)
       \<and> (set ops \<subseteq> {OpBegin, OpCommit, OpRollback} \<longrightarrow>
            run_operations env ops (c, w) = (c, w))"
proof -
  have single: "Begin env c w = (None, c, w) \<and> Commit env c w = (None, c, w)
      \<and> Rollback env c w = (None, c, w)"
    using assms by (simp add: Begin_def Commit_def Rollback_def)
  have "set ops \<subseteq> {OpBegin, OpCommit, OpRollback} \<Longrightarrow> run_operations env ops (c, w) = (c, w)"
  proof (induction ops)
    case Nil
    then show ?case by simp
  next
    case (Cons x xs)
    then have "x = OpBegin \<or> x = OpCommit \<or> x = OpRollback" by simp
    then have "apply_operation env x (c, w) = (c, w)"
      using single by auto
    with Cons show ?case by simp
  qed
  with single show ?thesis by simp
qed

theorem C1_witness:
  "\<not> canHandleTransaction conn_csv
   \<and> Begin env_down conn_csv native0 = (None, conn_csv, native0)
   \<and> Commit env_down conn_csv native0 = (None, conn_csv, native0)
   \<and> Rollback env_down conn_csv native0 = (None, conn_csv, native0)
   \<and> set [OpCommit, OpBegin, OpRollback, OpBegin] \<subseteq> {OpBegin, OpCommit, OpRollback}
   \<and> run_operations env_down [OpCommit, OpBegin, OpRollback, OpBegin] (conn_csv, native0)
       = (conn_csv, native0)
   \<and> tx conn_csv = None"
proof -
  have h: "\<not> canHandleTransaction conn_csv" by (simp add: conn_csv_def)
  have t: "tx conn_csv = None" by (simp add: conn_csv_def)
  show ?thesis
    using h t
      C1_no_transactions_noop [OF h, of env_down native0 "[OpCommit, OpBegin, OpRollback, OpBegin]"]
    by simp
qed

text \<open>
  C2. On a transactional connection with no stored transaction, \<open>Commit\<close> and \<open>Rollback\<close>
  each return the error "no active transaction" and leave the connection (so its
  transaction handle, still \<^verbatim>\<open>nil\<close>) and the native layer unchanged.
\<close>

theorem C2_no_active_transaction:
  assumes "canHandleTransaction c" and "tx c = None"
  shows "Commit env c w = (Some ''no active transaction'', c, w)
       \<and> Rollback env c w = (Some ''no active transaction'', c, w)
       \<and> tx (fst (snd (Commit env c w))) = None
       \<and> tx (fst (snd (Rollback env c w))) = None"
  using assms by (simp add: Commit_def Rollback_def)

theorem C2_witness:
  "canHandleTransaction conn_pg \<and> tx conn_pg = None
   \<and> Commit env_ok conn_pg native0 = (Some ''no active transaction'', conn_pg, native0)
   \<and> Rollback env_ok conn_pg native0 = (Some ''no active transaction'', conn_pg, native0)"
proof -
  have h1: "canHandleTransaction conn_pg" by (simp add: conn_pg_def)
  have h2: "tx conn_pg = None" by (simp add: conn_pg_def)
  show ?thesis
    using h1 h2 C2_no_active_transaction [OF h1 h2, of env_ok native0] by simp
qed

text \<open>
  C3. On a transactional connection with a stored transaction \<open>t\<close>, \<open>Commit\<close> returns
  whatever the driver's commit of \<open>t\<close> answered, error or not, and in both cases leaves
  the stored handle \<^verbatim>\<open>nil\<close>; a \<open>Commit\<close> that follows it directly returns
  "no active transaction". The same holds for \<open>Rollback\<close>.
\<close>

theorem C3_commit_clears_handle:
  assumes "canHandleTransaction c" and "tx c = Some t"
  shows "(case Commit env c w of (err, c1, w1) \<Rightarrow>
            err = respond env (calls w) (TxCommit t)
            \<and> tx c1 = None
            \<and> Commit env c1 w1 = (Some ''no active transaction'', c1, w1))
       \<and> (case Rollback env c w of (err, c1, w1) \<Rightarrow>
            err = respond env (calls w) (TxRollback t)
            \<and> tx c1 = None
            \<and> Rollback env c1 w1 = (Some ''no active transaction'', c1, w1))"
  using assms by (simp add: Commit_def Rollback_def native_call_def)

theorem C3_witness:
  "canHandleTransaction conn_pg_active \<and> tx conn_pg_active = Some 1
   \<and> fst (Commit env_down conn_pg_active native0) = Some ''connection refused''
   \<and> tx (fst (snd (Commit env_down conn_pg_active native0))) = None
   \<and> fst (Commit env_down (fst (snd (Commit env_down conn_pg_active native0)))
                           (snd (snd (Commit env_down conn_pg_active native0))))
       = Some ''no active transaction''"
proof -
  have h1: "canHandleTransaction conn_pg_active"
    by (simp add: conn_pg_active_def conn_pg_def)
  have h2: "tx conn_pg_active = Some 1"
    by (simp add: conn_pg_active_def)
  have r: "respond env_down (calls native0) (TxCommit 1) = Some ''connection refused''"
    by (simp add: env_down_def)
  show ?thesis
    using h1 h2 r C3_commit_clears_handle [OF h1 h2, of env_down native0]
    by (auto split: prod.splits)
qed

section \<open>The invariant of a connection\<close>

lemma Begin_invariant:
  "tx_invariant c \<Longrightarrow> tx_invariant (fst (snd (Begin env c w)))"
  by (auto simp: Begin_def tx_invariant_def split: sum.splits prod.splits)

lemma Begin_capability:
  "canHandleTransaction (fst (snd (Begin env c w))) = canHandleTransaction c"
  by (auto simp: Begin_def split: sum.splits prod.splits)

lemma Commit_invariant:
  "tx_invariant c \<Longrightarrow> tx_invariant (fst (snd (Commit env c w)))"
  by (auto simp: Commit_def tx_invariant_def split: option.splits prod.splits)

lemma Commit_capability:
  "canHandleTransaction (fst (snd (Commit env c w))) = canHandleTransaction c"
  by (auto simp: Commit_def split: option.splits prod.splits)

lemma Rollback_invariant:
  "tx_invariant c \<Longrightarrow> tx_invariant (fst (snd (Rollback env c w)))"
  by (auto simp: Rollback_def tx_invariant_def split: option.splits prod.splits)

lemma Rollback_capability:
  "canHandleTransaction (fst (snd (Rollback env c w))) = canHandleTransaction c"
  by (auto simp: Rollback_def split: option.splits prod.splits)

lemma CloseNow_connection:
  "fst (snd (CloseNow env c w)) = c"
  by (auto simp: CloseNow_def Let_def split: sum.splits prod.splits)

lemma apply_operation_invariant:
  "tx_invariant (fst s) \<Longrightarrow> tx_invariant (fst (apply_operation env x s))"
proof (cases s)
  case (Pair c w)
  assume "tx_invariant (fst s)"
  with Pair show ?thesis
    by (cases x)
       (simp_all add: Begin_invariant Commit_invariant Rollback_invariant CloseNow_connection)
qed

lemma apply_operation_capability:
  "canHandleTransaction (fst (apply_operation env x s)) = canHandleTransaction (fst s)"
proof (cases s)
  case (Pair c w)
  then show ?thesis
    by (cases x)
       (simp_all add: Begin_capability Commit_capability Rollback_capability CloseNow_connection)
qed

text \<open>
  C6. Starting from a connection that satisfies the invariant (a stored transaction handle
  only if the capability flag is set), any sequence of \<open>Begin\<close>, \<open>Commit\<close>, \<open>Rollback\<close>,
  \<open>CloseNow\<close> and \<open>Unwrap\<close> calls leaves a connection that satisfies it, with the same
  capability flag, and that stores at most one transaction handle.
\<close>

theorem C6_invariant_preserved:
  assumes "tx_invariant c"
  shows "tx_invariant (fst (run_operations env ops (c, w)))
       \<and> canHandleTransaction (fst (run_operations env ops (c, w))) = canHandleTransaction c
       \<and> card (set_option (tx (fst (run_operations env ops (c, w))))) \<le> 1"
proof -
  have inv: "tx_invariant (fst s) \<Longrightarrow> tx_invariant (fst (run_operations env ops s))" for s
    by (induction ops arbitrary: s) (simp_all add: apply_operation_invariant)
  have cap: "canHandleTransaction (fst (run_operations env ops s)) = canHandleTransaction (fst s)"
    for s
    by (induction ops arbitrary: s) (simp_all add: apply_operation_capability)
  have one: "card (set_option x) \<le> 1" for x :: "handle option"
    by (cases x) simp_all
  from inv [of "(c, w)"] cap [of "(c, w)"] one assms show ?thesis by simp
qed

theorem C6_witness:
  "tx_invariant conn_pg
   \<and> tx (fst (run_operations env_ok [OpBegin, OpCommit, OpUnwrap ''x'', OpBegin, OpCloseNow]
                 (conn_pg, native0))) = Some 3
   \<and> tx_invariant (fst (run_operations env_ok
                 [OpBegin, OpCommit, OpUnwrap ''x'', OpBegin, OpCloseNow] (conn_pg, native0)))
   \<and> canHandleTransaction (fst (run_operations env_ok
                 [OpBegin, OpCommit, OpUnwrap ''x'', OpBegin, OpCloseNow] (conn_pg, native0)))"
proof -
  have h: "tx_invariant conn_pg" by (simp add: tx_invariant_def conn_pg_def)
  have t: "tx (fst (run_operations env_ok [OpBegin, OpCommit, OpUnwrap ''x'', OpBegin, OpCloseNow]
                 (conn_pg, native0))) = Some 3"
    by (simp add: Begin_def Commit_def CloseNow_def native_alloc_def native_call_def
          native_set_def env_ok_def conn_pg_def native0_def)
  have c: "canHandleTransaction conn_pg" by (simp add: conn_pg_def)
  show ?thesis
    using h t c
      C6_invariant_preserved [OF h, of env_ok
        "[OpBegin, OpCommit, OpUnwrap ''x'', OpBegin, OpCloseNow]" native0]
    by simp
qed

section \<open>The escape hatch\<close>

text \<open>
  C8. With the two sentinels distinct, \<open>Unwrap\<close> returns the database handle for the
  database sentinel, the stored transaction handle for the transaction sentinel, and
  panics (no error value is returned) for every other target.
\<close>

theorem C8_unwrap:
  assumes "sqlDbPointer env \<noteq> sqlTxtPointer env"
  shows "Unwrap env c (sqlDbPointer env) = Inr (SqlDB (db c))
       \<and> Unwrap env c (sqlTxtPointer env) = Inr (SqlTx (tx c))
       \<and> (target \<noteq> sqlDbPointer env \<and> target \<noteq> sqlTxtPointer env \<longrightarrow>
            Unwrap env c target = Inl (Panic (''unsupported target type '' @ fmt_v env target)))"
  using assms by (auto simp: Unwrap_def)

theorem C8_witness:
  "sqlDbPointer env_ok \<noteq> sqlTxtPointer env_ok
   \<and> Unwrap env_ok conn_pg_active ''*sql.DB'' = Inr (SqlDB 0)
   \<and> Unwrap env_ok conn_pg_active ''*sql.Tx'' = Inr (SqlTx (Some 1))
   \<and> Unwrap env_ok conn_pg_active ''*sql.Conn''
       = Inl (Panic ''unsupported target type *sql.Conn'')"
proof -
  have h: "sqlDbPointer env_ok \<noteq> sqlTxtPointer env_ok" by (simp add: env_ok_def)
  have e: "sqlDbPointer env_ok = ''*sql.DB''" "sqlTxtPointer env_ok = ''*sql.Tx''"
    "fmt_v env_ok ''*sql.Conn'' = ''*sql.Conn''"
    by (simp_all add: env_ok_def)
  have f: "db conn_pg_active = 0" "tx conn_pg_active = Some 1"
    by (simp_all add: conn_pg_active_def conn_pg_def)
  show ?thesis
    using h C8_unwrap [OF h, of conn_pg_active "''*sql.Conn''"]
    by (simp add: e f)
qed

section \<open>Creating a connection\<close>

lemma exec_InitSQL_ok:
  "(\<forall>i<length ss. respond env (calls w @ map (DbExec d) (take i ss)) (DbExec d (ss ! i)) = None)
   \<Longrightarrow> exec_InitSQL env config d ss w = (None, w\<lparr>calls := calls w @ map (DbExec d) ss\<rparr>)"
proof (induction ss arbitrary: w)
  case Nil
  then show ?case by simp
next
  case (Cons x xs)
  from Cons.prems have h0: "respond env (calls w) (DbExec d x) = None"
    by (auto dest: spec [of _ 0])
  let ?w1 = "w\<lparr>calls := calls w @ [DbExec d x]\<rparr>"
  have "\<forall>i<length xs. respond env (calls ?w1 @ map (DbExec d) (take i xs)) (DbExec d (xs ! i)) = None"
  proof (intro allI impI)
    fix i assume "i < length xs"
    with Cons.prems have "respond env (calls w @ map (DbExec d) (take (Suc i) (x # xs)))
        (DbExec d ((x # xs) ! Suc i)) = None"
      by (metis Suc_less_eq length_Cons)
    then show "respond env (calls ?w1 @ map (DbExec d) (take i xs)) (DbExec d (xs ! i)) = None"
      by simp
  qed
  from Cons.IH [OF this] h0 show ?case
    by (simp add: native_call_def)
qed

lemma exec_InitSQL_fail:
  "(\<forall>i<length pre. respond env (calls w @ map (DbExec d) (take i pre)) (DbExec d (pre ! i)) = None)
   \<Longrightarrow> respond env (calls w @ map (DbExec d) pre) (DbExec d s) = Some cause
   \<Longrightarrow> exec_InitSQL env config d (pre @ s # post) w =
       (Some (''failed to execute init SQL '' @ s @ '' on '' @ Descriptor config
              @ '' due to '' @ cause),
        w\<lparr>calls := calls w @ map (DbExec d) pre @ [DbExec d s]\<rparr>)"
proof (induction pre arbitrary: w)
  case Nil
  then show ?case by (simp add: native_call_def)
next
  case (Cons x xs)
  from Cons.prems(1) have h0: "respond env (calls w) (DbExec d x) = None"
    by (auto dest: spec [of _ 0])
  let ?w1 = "w\<lparr>calls := calls w @ [DbExec d x]\<rparr>"
  have a: "\<forall>i<length xs. respond env (calls ?w1 @ map (DbExec d) (take i xs)) (DbExec d (xs ! i)) = None"
  proof (intro allI impI)
    fix i assume "i < length xs"
    with Cons.prems(1) have "respond env (calls w @ map (DbExec d) (take (Suc i) (x # xs)))
        (DbExec d ((x # xs) ! Suc i)) = None"
      by (metis Suc_less_eq length_Cons)
    then show "respond env (calls ?w1 @ map (DbExec d) (take i xs)) (DbExec d (xs ! i)) = None"
      by simp
  qed
  from Cons.prems(2) have b: "respond env (calls ?w1 @ map (DbExec d) xs) (DbExec d s) = Some cause"
    by simp
  from Cons.IH [OF a b] h0 show ?case
    by (simp add: native_call_def)
qed


lemma exec_InitSQL_next_handle:
  "next_handle (snd (exec_InitSQL env config d ss w)) = next_handle w"
  by (induction ss arbitrary: w) (simp_all add: native_call_def split: option.splits)

lemma exec_InitSQL_prefix:
  "prefix (calls w) (calls (snd (exec_InitSQL env config d ss w)))"
proof (induction ss arbitrary: w)
  case Nil
  then show ?case by simp
next
  case (Cons x xs)
  let ?w1 = "w\<lparr>calls := calls w @ [DbExec d x]\<rparr>"
  show ?case
  proof (cases "respond env (calls w) (DbExec d x)")
    case None
    from Cons [of ?w1]
    have "prefix (calls w @ [DbExec d x]) (calls (snd (exec_InitSQL env config d xs ?w1)))"
      by simp
    then have "prefix (calls w) (calls (snd (exec_InitSQL env config d xs ?w1)))"
      by (rule append_prefixD)
    with None show ?thesis by (simp add: native_call_def)
  next
    case (Some err)
    then show ?thesis by (simp add: native_call_def)
  qed
qed

lemma NewConnection_fresh:
  "NewConnection env config w = (Inr c, config', w') \<Longrightarrow> db c = next_handle w \<and> tx c = None"
  by (auto simp: NewConnection_def native_alloc_def split: sum.splits option.splits prod.splits)

lemma NewConnection_prefix:
  "prefix (calls w) (calls (snd (snd (NewConnection env config w))))"
proof (cases "DsnDescriptor config")
  case (Inl err)
  then show ?thesis by (simp add: NewConnection_def)
next
  case (Inr dsn)
  let ?open = "SqlOpen (DriverName config) dsn"
  show ?thesis
  proof (cases "respond env (calls w) ?open")
    case (Some err)
    with Inr show ?thesis by (simp add: NewConnection_def native_alloc_def)
  next
    case None
    let ?w1 = "w\<lparr>calls := calls w @ [?open], next_handle := Suc (next_handle w)\<rparr>"
    obtain r w2 where ex: "exec_InitSQL env config (next_handle w) (InitSQL config) ?w1 = (r, w2)"
      by (cases "exec_InitSQL env config (next_handle w) (InitSQL config) ?w1")
    from exec_InitSQL_prefix [of ?w1 env config "next_handle w" "InitSQL config"] ex
    have "prefix (calls w @ [?open]) (calls w2)" by simp
    then have "prefix (calls w) (calls w2)" by (rule append_prefixD)
    with Inr None ex show ?thesis
      by (cases r) (simp_all add: NewConnection_def native_alloc_def)
  qed
qed

lemma apply_tuning_prefix:
  "prefix (calls w) (calls (apply_tuning config d w))"
  by (simp add: apply_tuning_def native_set_def Let_def)

lemma apply_tuning_next_handle:
  "next_handle (apply_tuning config d w) = next_handle w"
  by (simp add: apply_tuning_def native_set_def Let_def)

lemma probe_needed_iff:
  "probe_needed env result \<longleftrightarrow>
     (\<exists>t. lastUsed (super result) = Some t \<and> now env - t > 60 * time_Second)"
  by (auto simp: probe_needed_def time_Sub_def Let_def maxDuration_def minDuration_def
        time_Second_def time_Millisecond_def split: option.splits)


lemma NewConnection_init_failure:
  assumes dsn: "DsnDescriptor config = Inr dsn"
    and opened: "respond env (calls w) (SqlOpen (DriverName config) dsn) = None"
    and stmts: "InitSQL config = pre @ s # post"
    and ok: "\<forall>i<length pre.
               respond env (calls w @ SqlOpen (DriverName config) dsn
                              # map (DbExec (next_handle w)) (take i pre))
                 (DbExec (next_handle w) (pre ! i)) = None"
    and failed: "respond env (calls w @ SqlOpen (DriverName config) dsn
                                # map (DbExec (next_handle w)) pre)
                   (DbExec (next_handle w) s) = Some cause"
  shows "NewConnection env config w =
           (Inl (Error (''failed to execute init SQL '' @ s @ '' on '' @ Descriptor config
                        @ '' due to '' @ cause)),
            config,
            \<lparr>calls = calls w @ SqlOpen (DriverName config) dsn
                       # map (DbExec (next_handle w)) pre @ [DbExec (next_handle w) s],
             next_handle = Suc (next_handle w)\<rparr>)"
proof -
  let ?d = "next_handle w"
  let ?w1 = "w\<lparr>calls := calls w @ [SqlOpen (DriverName config) dsn], next_handle := Suc ?d\<rparr>"
  have a: "\<forall>i<length pre. respond env (calls ?w1 @ map (DbExec ?d) (take i pre))
             (DbExec ?d (pre ! i)) = None"
    using ok by simp
  have b: "respond env (calls ?w1 @ map (DbExec ?d) pre) (DbExec ?d s) = Some cause"
    using failed by simp
  have "exec_InitSQL env config ?d (InitSQL config) ?w1 =
       (Some (''failed to execute init SQL '' @ s @ '' on '' @ Descriptor config
              @ '' due to '' @ cause),
        ?w1\<lparr>calls := calls ?w1 @ map (DbExec ?d) pre @ [DbExec ?d s]\<rparr>)"
    unfolding stmts by (rule exec_InitSQL_fail [OF a b])
  then show ?thesis
    using dsn opened by (simp add: NewConnection_def native_alloc_def)
qed

lemma NewConnection_init_ok:
  assumes dsn: "DsnDescriptor config = Inr dsn"
    and opened: "respond env (calls w) (SqlOpen (DriverName config) dsn) = None"
    and ok: "\<forall>i<length (InitSQL config).
               respond env (calls w @ SqlOpen (DriverName config) dsn
                              # map (DbExec (next_handle w)) (take i (InitSQL config)))
                 (DbExec (next_handle w) (InitSQL config ! i)) = None"
  shows "NewConnection env config w =
           (Inr \<lparr>canHandleTransaction = CanHandleTransaction env (DriverName config),
                 super = NewAbstractConnection env config,
                 db = next_handle w, tx = None, init = False\<rparr>,
            config,
            \<lparr>calls = calls w @ SqlOpen (DriverName config) dsn
                       # map (DbExec (next_handle w)) (InitSQL config),
             next_handle = Suc (next_handle w)\<rparr>)"
proof -
  let ?d = "next_handle w"
  let ?w1 = "w\<lparr>calls := calls w @ [SqlOpen (DriverName config) dsn], next_handle := Suc ?d\<rparr>"
  have a: "\<forall>i<length (InitSQL config).
             respond env (calls ?w1 @ map (DbExec ?d) (take i (InitSQL config)))
             (DbExec ?d (InitSQL config ! i)) = None"
    using ok by simp
  have "exec_InitSQL env config ?d (InitSQL config) ?w1 =
       (None, ?w1\<lparr>calls := calls ?w1 @ map (DbExec ?d) (InitSQL config)\<rparr>)"
    by (rule exec_InitSQL_ok [OF a])
  then show ?thesis
    using dsn opened by (simp add: NewConnection_def native_alloc_def)
qed

lemma NewConnection_dsn_failure:
  "DsnDescriptor config = Inl err \<Longrightarrow> NewConnection env config w = (Inl (Error err), config, w)"
  by (simp add: NewConnection_def)

lemma NewConnection_open_failure:
  assumes "DsnDescriptor config = Inr dsn"
    and "respond env (calls w) (SqlOpen (DriverName config) dsn) = Some err"
  shows "NewConnection env config w =
           (Inl (Error (''failed to open connection to '' @ DriverName config @ '' on ''
                        @ Descriptor config @ '' due to '' @ err)),
            config,
            w\<lparr>calls := calls w @ [SqlOpen (DriverName config) dsn]\<rparr>)"
  using assms by (simp add: NewConnection_def native_alloc_def)

text \<open>
  C7, as the code has it. Once the handle \<open>d\<close> is open, \<open>NewConnection\<close> executes the
  initialization statements on it in the order of the configuration, each after the one
  before it succeeded. If all succeed, the log holds exactly these executions and the
  connection wraps \<open>d\<close>. If the statement \<open>s\<close> is the first to fail, with cause \<open>cause\<close>,
  the statements after it are not executed, the handle is neither closed nor rolled back
  (the log ends with the failed execution), and the error returned is
  "failed to execute init SQL \<open>s\<close> on \<open>Descriptor\<close> due to \<open>cause\<close>": the statement text,
  the endpoint descriptor and the cause.
\<close>

theorem C7_init_statements:
  assumes dsn: "DsnDescriptor config = Inr dsn"
    and opened: "respond env (calls w) (SqlOpen (DriverName config) dsn) = None"
  shows "((\<forall>i<length (InitSQL config).
              respond env (calls w @ SqlOpen (DriverName config) dsn
                             # map (DbExec (next_handle w)) (take i (InitSQL config)))
                (DbExec (next_handle w) (InitSQL config ! i)) = None) \<longrightarrow>
          NewConnection env config w =
            (Inr \<lparr>canHandleTransaction = CanHandleTransaction env (DriverName config),
                  super = NewAbstractConnection env config,
                  db = next_handle w, tx = None, init = False\<rparr>,
             config,
             \<lparr>calls = calls w @ SqlOpen (DriverName config) dsn
                        # map (DbExec (next_handle w)) (InitSQL config),
              next_handle = Suc (next_handle w)\<rparr>))
       \<and> (InitSQL config = pre @ s # post
          \<and> (\<forall>i<length pre.
                respond env (calls w @ SqlOpen (DriverName config) dsn
                               # map (DbExec (next_handle w)) (take i pre))
                  (DbExec (next_handle w) (pre ! i)) = None)
          \<and> respond env (calls w @ SqlOpen (DriverName config) dsn
                            # map (DbExec (next_handle w)) pre)
                (DbExec (next_handle w) s) = Some cause \<longrightarrow>
          NewConnection env config w =
            (Inl (Error (''failed to execute init SQL '' @ s @ '' on '' @ Descriptor config
                         @ '' due to '' @ cause)),
             config,
             \<lparr>calls = calls w @ SqlOpen (DriverName config) dsn
                        # map (DbExec (next_handle w)) pre @ [DbExec (next_handle w) s],
              next_handle = Suc (next_handle w)\<rparr>))"
  using NewConnection_init_ok [OF dsn opened]
    NewConnection_init_failure [OF dsn opened, of pre s post cause]
  by blast

theorem C7_witness:
  "DsnDescriptor cfg_pg = Inr ''dsn''
   \<and> InitSQL cfg_pg = [''SET a''] @ ''SET b'' # [''SET c'']
   \<and> NewConnection env_init_fail cfg_pg native0 =
       (Inl (Error ''failed to execute init SQL SET b on db1 due to syntax error''),
        cfg_pg,
        \<lparr>calls = [SqlOpen ''pg'' ''dsn'', DbBegin 0, SqlOpen ''pg'' ''dsn'',
                  DbExec 2 ''SET a'', DbExec 2 ''SET b''],
         next_handle = 3\<rparr>)
   \<and> NewConnection env_ok cfg_pg native0 =
       (Inr \<lparr>canHandleTransaction = True, super = \<lparr>lastUsed = None\<rparr>,
             db = 2, tx = None, init = False\<rparr>,
        cfg_pg,
        \<lparr>calls = [SqlOpen ''pg'' ''dsn'', DbBegin 0, SqlOpen ''pg'' ''dsn'',
                  DbExec 2 ''SET a'', DbExec 2 ''SET b'', DbExec 2 ''SET c''],
         next_handle = 3\<rparr>)"
proof -
  have dsn: "DsnDescriptor cfg_pg = Inr ''dsn''" by (simp add: cfg_pg_def)
  have o1: "respond env_init_fail (calls native0) (SqlOpen (DriverName cfg_pg) ''dsn'') = None"
    by (simp add: env_init_fail_def)
  have o2: "respond env_ok (calls native0) (SqlOpen (DriverName cfg_pg) ''dsn'') = None"
    by (simp add: env_ok_def)
  have r1: "respond env_init_fail h c = (if c = DbExec 2 ''SET b'' then Some ''syntax error'' else None)"
    for h c by (simp add: env_init_fail_def)
  have r2: "respond env_ok h c = None" for h c
    by (simp add: env_ok_def)
  have f: "DriverName cfg_pg = ''pg''" "Descriptor cfg_pg = ''db1''"
    "InitSQL cfg_pg = [''SET a'', ''SET b'', ''SET c'']"
    "CanHandleTransaction env_ok ''pg''"
    "NewAbstractConnection env_ok cfg_pg = \<lparr>lastUsed = None\<rparr>"
    "next_handle native0 = 2" "calls native0 = [SqlOpen ''pg'' ''dsn'', DbBegin 0]"
    by (simp_all add: cfg_pg_def env_ok_def native0_def)
  show ?thesis
    using dsn
      C7_init_statements [OF dsn o1, of "[''SET a'']" "''SET b''" "[''SET c'']" "''syntax error''"]
      C7_init_statements [OF dsn o2, of "[]" "''SET a''" "[''SET b'', ''SET c'']" "''x''"]
    by (simp add: r1 r2 f)
qed

theorem C7_counterexample:
  "fst (NewConnection env_init_fail cfg_pg native0)
     = Inl (Error ''failed to execute init SQL SET b on db1 due to syntax error'')
   \<and> DriverName cfg_pg = ''pg''
   \<and> \<not> sublist (DriverName cfg_pg)
          ''failed to execute init SQL SET b on db1 due to syntax error''"
proof -
  have a: "fst (NewConnection env_init_fail cfg_pg native0)
             = Inl (Error ''failed to execute init SQL SET b on db1 due to syntax error'')"
    by (simp add: NewConnection_def native_alloc_def native_call_def env_init_fail_def
          env_ok_def cfg_pg_def native0_def)
  have b: "DriverName cfg_pg = ''pg''"
    by (simp add: cfg_pg_def)
  have c: "\<not> sublist ''pg'' ''failed to execute init SQL SET b on db1 due to syntax error''"
    by (simp add: sublist_Cons_right)
  from a b c show ?thesis by simp
qed

section \<open>Checking a connection out\<close>

text \<open>
  C4. Let \<open>Get\<close> take from the pool a connection last used more than 60 seconds ago
  whose handle was allocated before. Then the probe is made: the ping of its handle is
  the next call in the log. If the ping fails, \<open>Get\<close> returns exactly what \<open>NewConnection\<close>
  returns on the native layer after the ping and the tuning calls: the ping's error is
  not returned, an error comes only from \<open>NewConnection\<close>, and a connection returned is
  not the pooled one: its database handle is newly allocated.
\<close>

theorem C4_stale_replaced:
  assumes pooled: "super_Get = Inr result"
    and cast: "asSQLDb env (SqlDB (db result)) = Inr d"
    and used: "lastUsed (super result) = Some t"
    and old: "now env - t > 60 * time_Second"
    and live: "db result < next_handle w"
  shows "prefix (calls w @ [DbPing d]) (calls (snd (snd (Get env config super_Get w))))
       \<and> (respond env (calls w) (DbPing d) \<noteq> None \<longrightarrow>
            Get env config super_Get w =
              NewConnection env config
                (apply_tuning config d (w\<lparr>calls := calls w @ [DbPing d]\<rparr>))
            \<and> (\<forall>c'. fst (Get env config super_Get w) = Inr c' \<longrightarrow>
                  c' \<noteq> result \<and> db c' \<noteq> db result \<and> next_handle w \<le> db c'))"
proof -
  let ?wp = "w\<lparr>calls := calls w @ [DbPing d]\<rparr>"
  let ?wt = "apply_tuning config d ?wp"
  have need: "probe_needed env result"
    using used old by (simp add: probe_needed_iff)
  have alive: "Get env config super_Get w = (Inr result, config, ?wp)"
    if "respond env (calls w) (DbPing d) = None"
    using pooled cast need that by (simp add: Get_def Unwrap_def native_call_def)
  have eq: "Get env config super_Get w = NewConnection env config ?wt"
    if "respond env (calls w) (DbPing d) \<noteq> None"
    using pooled cast need that by (auto simp: Get_def Unwrap_def native_call_def)
  have "prefix (calls ?wp) (calls ?wt)"
    by (rule apply_tuning_prefix)
  moreover have "prefix (calls ?wt) (calls (snd (snd (NewConnection env config ?wt))))"
    by (rule NewConnection_prefix)
  ultimately have "prefix (calls ?wp) (calls (snd (snd (NewConnection env config ?wt))))"
    by (rule prefix_order.trans)
  then have pre: "prefix (calls w @ [DbPing d]) (calls (snd (snd (Get env config super_Get w))))"
    using alive eq by (cases "respond env (calls w) (DbPing d)") simp_all
  have fresh: "c' \<noteq> result \<and> db c' \<noteq> db result \<and> next_handle w \<le> db c'"
    if dead: "respond env (calls w) (DbPing d) \<noteq> None"
      and ret: "fst (Get env config super_Get w) = Inr c'" for c'
  proof -
    from ret eq [OF dead] obtain config' w'
      where "NewConnection env config ?wt = (Inr c', config', w')"
      by (cases "NewConnection env config ?wt") auto
    then have "db c' = next_handle ?wt"
      by (simp add: NewConnection_fresh)
    then have "db c' = next_handle w"
      by (simp add: apply_tuning_next_handle)
    with live show ?thesis by auto
  qed
  from eq pre fresh show ?thesis by blast
qed

theorem C4_witness:
  "lastUsed (super conn_idle) = Some 0
   \<and> now env_stale - 0 > 60 * time_Second
   \<and> db conn_idle < next_handle native0
   \<and> respond env_stale (calls native0) (DbPing 0) = Some ''bad connection''
   \<and> Get env_stale cfg_pg (Inr conn_idle) native0 =
       (Inr \<lparr>canHandleTransaction = True, super = \<lparr>lastUsed = None\<rparr>,
             db = 2, tx = None, init = False\<rparr>,
        cfg_pg,
        \<lparr>calls = [SqlOpen ''pg'' ''dsn'', DbBegin 0, DbPing 0,
                  DbSetConnMaxLifetime 0 5000000000, DbSetMaxIdleConns 0 2,
                  SqlOpen ''pg'' ''dsn'', DbExec 2 ''SET a'', DbExec 2 ''SET b'',
                  DbExec 2 ''SET c''],
         next_handle = 3\<rparr>)
   \<and> db conn_idle = 0"
proof -
  have cast: "asSQLDb env_stale (SqlDB (db conn_idle)) = Inr 0"
    by (simp add: env_stale_def env_ok_def conn_idle_def conn_pg_def)
  have used: "lastUsed (super conn_idle) = Some 0"
    by (simp add: conn_idle_def)
  have old: "now env_stale - 0 > 60 * time_Second"
    by (simp add: env_stale_def env_ok_def time_Second_def time_Millisecond_def)
  have live: "db conn_idle < next_handle native0"
    by (simp add: conn_idle_def conn_pg_def native0_def)
  have dead: "respond env_stale (calls native0) (DbPing 0) = Some ''bad connection''"
    by (simp add: env_stale_def)
  have new: "NewConnection env_stale cfg_pg
               (apply_tuning cfg_pg 0 (native0\<lparr>calls := calls native0 @ [DbPing 0]\<rparr>)) =
       (Inr \<lparr>canHandleTransaction = True, super = \<lparr>lastUsed = None\<rparr>,
             db = 2, tx = None, init = False\<rparr>,
        cfg_pg,
        \<lparr>calls = [SqlOpen ''pg'' ''dsn'', DbBegin 0, DbPing 0,
                  DbSetConnMaxLifetime 0 5000000000, DbSetMaxIdleConns 0 2,
                  SqlOpen ''pg'' ''dsn'', DbExec 2 ''SET a'', DbExec 2 ''SET b'',
                  DbExec 2 ''SET c''],
         next_handle = 3\<rparr>)"
    by (simp add: NewConnection_def native_alloc_def native_call_def native_set_def
          apply_tuning_def connMaxLifetimeMsKey_def maxIdleConnsKey_def
          defaultConnMaxLifetimeMs_def time_Millisecond_def
          env_stale_def env_ok_def cfg_pg_def native0_def)
  show ?thesis
    using used old live dead new
      C4_stale_replaced [OF refl cast used old live, of cfg_pg]
    by (simp add: conn_idle_def conn_pg_def)
qed

text \<open>
  C5, as the code has it. When no probe is needed or the probe succeeds, \<open>Get\<close> returns
  the pooled connection at once: whatever the configuration holds, no tuning call is
  made, and the only call on the native layer is the ping, when one was needed.
\<close>

theorem C5_success_path_untuned:
  assumes pooled: "super_Get = Inr result"
    and cast: "asSQLDb env (SqlDB (db result)) = Inr d"
  shows "(\<not> probe_needed env result \<longrightarrow>
            Get env config super_Get w = (Inr result, config, w))
       \<and> (probe_needed env result \<and> respond env (calls w) (DbPing d) = None \<longrightarrow>
            Get env config super_Get w =
              (Inr result, config, w\<lparr>calls := calls w @ [DbPing d]\<rparr>))"
  using pooled cast by (simp add: Get_def Unwrap_def native_call_def)

theorem C5_witness:
  "\<not> probe_needed env_ok conn_pg
   \<and> Get env_ok cfg_pg (Inr conn_pg) native0 = (Inr conn_pg, cfg_pg, native0)
   \<and> probe_needed env_ok conn_idle
   \<and> respond env_ok (calls native0) (DbPing 0) = None
   \<and> Get env_ok cfg_pg (Inr conn_idle) native0
       = (Inr conn_idle, cfg_pg, native0\<lparr>calls := calls native0 @ [DbPing 0]\<rparr>)"
proof -
  have c1: "asSQLDb env_ok (SqlDB (db conn_pg)) = Inr 0"
    by (simp add: env_ok_def conn_pg_def)
  have c2: "asSQLDb env_ok (SqlDB (db conn_idle)) = Inr 0"
    by (simp add: env_ok_def conn_idle_def conn_pg_def)
  have n1: "\<not> probe_needed env_ok conn_pg"
    by (simp add: probe_needed_def conn_pg_def)
  have n2: "probe_needed env_ok conn_idle"
    by (simp add: probe_needed_def conn_idle_def env_ok_def time_Sub_def maxDuration_def
          minDuration_def time_Second_def time_Millisecond_def)
  have r: "respond env_ok (calls native0) (DbPing 0) = None"
    by (simp add: env_ok_def)
  show ?thesis
    using n1 n2 r
      C5_success_path_untuned [OF refl c1, of cfg_pg native0]
      C5_success_path_untuned [OF refl c2, of cfg_pg native0]
    by simp
qed

theorem C5_counterexample:
  "Has cfg_pg connMaxLifetimeMsKey
   \<and> GetDuration cfg_pg connMaxLifetimeMsKey time_Millisecond defaultConnMaxLifetimeMs \<noteq> 0
   \<and> Has cfg_pg maxIdleConnsKey
   \<and> Get env_ok cfg_pg (Inr conn_pg) native0 = (Inr conn_pg, cfg_pg, native0)
   \<and> calls native0 = [SqlOpen ''pg'' ''dsn'', DbBegin 0]"
  by (simp add: Get_def Unwrap_def probe_needed_def env_ok_def conn_pg_def cfg_pg_def
        native0_def time_Millisecond_def)

section \<open>Constructing the provider\<close>

lemma NewConnection_config:
  "fst (snd (NewConnection env config w)) = config"
  by (simp add: NewConnection_def split: sum.splits prod.splits option.splits)

lemma Get_config:
  "fst (snd (Get env config super_Get w)) = config"
  by (simp add: Get_def NewConnection_config split: sum.splits prod.splits)

lemma apply_file_operation_config:
  "fst (apply_file_operation env x s) = fst s"
proof (cases s)
  case (fields config c w)
  show ?thesis
  proof (cases x)
    case CallNewConnection
    with fields NewConnection_config [of env config w] show ?thesis
      by (auto split: prod.splits sum.splits)
  next
    case (CallGet super_Get)
    with fields Get_config [of env config super_Get w] show ?thesis
      by (auto split: prod.splits sum.splits)
  next
    case (CallOnConnection y)
    with fields show ?thesis by simp
  qed
qed

lemma run_file_operations_config:
  "fst (run_file_operations env ops s) = fst s"
  by (induction ops arbitrary: s) (simp_all add: apply_file_operation_config)

text \<open>
  C9, as the code has it. \<open>newSQLConnectionProvider\<close> writes to the configuration it is
  given in one case only: a pool size of 0 is replaced by 1. Every other field is left
  as supplied, and so is the whole configuration when the pool size is not 0. After the
  construction nothing in the file writes to it: \<open>NewConnection\<close> and \<open>Get\<close> return with
  every field as it was, and so does any sequence of \<open>NewConnection\<close>, \<open>Get\<close>, \<open>Begin\<close>,
  \<open>Commit\<close>, \<open>Rollback\<close>, \<open>CloseNow\<close> and \<open>Unwrap\<close> calls (the methods of the configuration
  and \<open>NewAbstractConnection\<close>, declared outside the file, being read-only on it).
\<close>

theorem C9_config_after_construction:
  "fst (newSQLConnectionProvider limit config) =
     config\<lparr>MaxPoolSize := (if MaxPoolSize config = 0 then 1 else MaxPoolSize config)\<rparr>
   \<and> (MaxPoolSize config \<noteq> 0 \<longrightarrow> fst (newSQLConnectionProvider limit config) = config)
   \<and> fst (snd (NewConnection env config w)) = config
   \<and> fst (snd (Get env config super_Get w)) = config
   \<and> fst (run_file_operations env ops (config, c, w)) = config"
  by (simp add: newSQLConnectionProvider_def Let_def NewConnection_config Get_config
        run_file_operations_config)

theorem C9_witness:
  "MaxPoolSize cfg_pool5 \<noteq> 0
   \<and> fst (newSQLConnectionProvider 10 cfg_pool5) = cfg_pool5
   \<and> fst (snd (Get env_stale cfg_pool5 (Inr conn_idle) native0)) = cfg_pool5
   \<and> fst (run_file_operations env_stale
            [CallGet (Inr conn_idle), CallOnConnection OpBegin, CallNewConnection,
             CallOnConnection OpCommit, CallOnConnection OpCloseNow]
            (cfg_pool5, conn_pg, native0)) = cfg_pool5"
proof -
  have h: "MaxPoolSize cfg_pool5 \<noteq> 0" by (simp add: cfg_pool5_def)
  show ?thesis
    using h
      C9_config_after_construction [of 10 cfg_pool5 env_stale native0 "Inr conn_idle"
        "[CallGet (Inr conn_idle), CallOnConnection OpBegin, CallNewConnection,
          CallOnConnection OpCommit, CallOnConnection OpCloseNow]" conn_pg]
    by simp
qed

theorem C9_counterexample:
  "MaxPoolSize cfg_pg = 0
   \<and> MaxPoolSize (fst (newSQLConnectionProvider 10 cfg_pg)) = 1
   \<and> fst (newSQLConnectionProvider 10 cfg_pg) \<noteq> cfg_pg"
proof -
  have a: "MaxPoolSize cfg_pg = 0" by (simp add: cfg_pg_def)
  have b: "MaxPoolSize (fst (newSQLConnectionProvider 10 cfg_pg)) = 1"
    by (simp add: newSQLConnectionProvider_def Let_def a)
  from a b have "fst (newSQLConnectionProvider 10 cfg_pg) \<noteq> cfg_pg" by auto
  with a b show ?thesis by simp
qed

text \<open>
  C10. For a pool size the platform can allocate (not negative, at most \<open>limit\<close>),
  \<open>newSQLConnectionProvider\<close> returns a provider whose pool is an empty channel of
  capacity \<open>MaxPoolSize\<close> as the configuration has it after defaulting: 1 when the
  supplied pool size is 0, the supplied pool size otherwise.
\<close>

theorem C10_pool_capacity:
  assumes "0 \<le> MaxPoolSize config" and "MaxPoolSize config \<le> limit" and "1 \<le> limit"
  shows "snd (newSQLConnectionProvider limit config) =
           Inr \<lparr>provider_config = fst (newSQLConnectionProvider limit config),
                connectionPool =
                  \<lparr>cap = MaxPoolSize (fst (newSQLConnectionProvider limit config)),
                   queue = []\<rparr>\<rparr>
       \<and> MaxPoolSize (fst (newSQLConnectionProvider limit config)) =
           (if MaxPoolSize config = 0 then 1 else MaxPoolSize config)"
  using assms by (simp add: newSQLConnectionProvider_def make_chan_def Let_def)

theorem C10_witness:
  "0 \<le> MaxPoolSize cfg_pg \<and> MaxPoolSize cfg_pg \<le> 10 \<and> (1::int) \<le> 10
   \<and> MaxPoolSize cfg_pg = 0
   \<and> cap (connectionPool (projr (snd (newSQLConnectionProvider 10 cfg_pg)))) = 1"
proof -
  have z: "MaxPoolSize cfg_pg = 0" by (simp add: cfg_pg_def)
  have h1: "0 \<le> MaxPoolSize cfg_pg" and h2: "MaxPoolSize cfg_pg \<le> 10" and h3: "(1::int) \<le> 10"
    by (simp_all add: z)
  show ?thesis
    using z C10_pool_capacity [OF h1 h2 h3] by simp
qed

end
